theory Spec2Isabelle
  imports Main "HOL-Library.Word"
begin

section \<open>BaseTexture: a 2D texture made from a bitmap or from raw pixels\<close>

text \<open>
  The development embeds \<^verbatim>\<open>GVRf/Framework/jni/objects/textures/base_texture.h\<close>:
  the two constructors of \<^verbatim>\<open>BaseTexture\<close> and its accessor \<^verbatim>\<open>getTarget\<close>.
  The class calls into two external interfaces, the platform bitmap interface
  (\<^verbatim>\<open>AndroidBitmap_getInfo\<close>, \<^verbatim>\<open>AndroidBitmap_lockPixels\<close>,
  \<^verbatim>\<open>AndroidBitmap_unlockPixels\<close>) and the graphics interface
  (\<^verbatim>\<open>glBindTexture\<close>, \<^verbatim>\<open>glTexImage2D\<close>). Every such call is written to a log of
  calls, in the order in which it is made, and the graphics calls also update a small
  picture of the graphics state: the texture bound at each target and the image last
  specified for each texture name.
\<close>

subsection \<open>Machine types\<close>

type_synonym GLenum = "32 word"
type_synonym GLuint = "32 word"
type_synonym GLint = "32 word"
type_synonym GLsizei = "32 word"

text \<open>C's \<^verbatim>\<open>int\<close>, read as two's complement by \<^const>\<open>sint\<close>.\<close>

type_synonym c_int = "32 word"

text \<open>An opaque handle to a platform bitmap object.\<close>

type_synonym jobject = nat

text \<open>
  A pointer to pixel bytes (\<^verbatim>\<open>void *\<close>, \<^verbatim>\<open>const unsigned char *\<close>) is modelled by the
  bytes that can be read from it. The code never reads them itself: it hands the pointer
  to \<^verbatim>\<open>glTexImage2D\<close>.
\<close>

type_synonym pixel_pointer = "8 word list"

text \<open>
  The values of the graphics constants are those of the OpenGL ES headers, which the
  source includes and does not define.
\<close>

definition GL_TEXTURE_2D :: GLenum where
  "GL_TEXTURE_2D = 0x0DE1"

definition GL_RGBA :: "32 word" where
  "GL_RGBA = 0x1908"

definition GL_UNSIGNED_BYTE :: GLenum where
  "GL_UNSIGNED_BYTE = 0x1401"

text \<open>\<^verbatim>\<open>static const GLenum TARGET = GL_TEXTURE_2D;\<close>\<close>

definition TARGET :: GLenum where
  "TARGET = GL_TEXTURE_2D"

subsection \<open>The platform bitmap interface\<close>

text \<open>
  \<^verbatim>\<open>AndroidBitmapInfo\<close> of \<^verbatim>\<open>android/bitmap.h\<close>: width, height, stride and flags are
  \<^verbatim>\<open>uint32_t\<close>, the format is \<^verbatim>\<open>int32_t\<close>.
\<close>

record AndroidBitmapInfo =
  width :: "32 word"
  height :: "32 word"
  stride :: "32 word"
  format :: "32 word"
  flags :: "32 word"

text \<open>
  What the platform answers is an input of the model: for each bitmap handle the code of
  the metadata query with the structure it fills in, and the code of the pixel lock with
  the pointer it stores. Both are carried by the environment handle.
\<close>

record JNIEnv =
  getInfo_answer :: "jobject \<Rightarrow> c_int \<times> AndroidBitmapInfo"
  lockPixels_answer :: "jobject \<Rightarrow> c_int \<times> pixel_pointer"

subsection \<open>The graphics state and the log of calls\<close>

record tex_image =
  image_level :: GLint
  image_internalformat :: GLint
  image_width :: GLsizei
  image_height :: GLsizei
  image_border :: GLint
  image_format :: GLenum
  image_type :: GLenum
  image_pixels :: pixel_pointer

datatype call =
    GenTexture GLenum GLuint
  | GetInfo jobject
  | LockPixels jobject
  | UnlockPixels jobject
  | LogE string
  | BindTexture GLenum GLuint
  | TexImage2D GLenum GLint GLint GLsizei GLsizei GLint GLenum GLenum pixel_pointer

text \<open>
  The world a constructor runs in. \<open>rodata lit i\<close> is the byte stored \<open>i\<close> positions from
  the first character of the string literal \<open>lit\<close> in the program image, for the positions
  that the literal and its terminator do not occupy themselves.
\<close>

record world =
  rodata :: "string \<Rightarrow> int \<Rightarrow> char"
  gl_next_name :: GLuint
  gl_texture_names :: "GLuint list"
  gl_binding :: "GLenum \<Rightarrow> GLuint"
  gl_image :: "GLuint \<rightharpoonup> tex_image"
  calls :: "call list"

definition log_call :: "call \<Rightarrow> world \<Rightarrow> world" where
  "log_call c w = w\<lparr>calls := calls w @ [c]\<rparr>"

definition AndroidBitmap_getInfo ::
  "JNIEnv \<Rightarrow> jobject \<Rightarrow> world \<Rightarrow> (c_int \<times> AndroidBitmapInfo) \<times> world" where
  "AndroidBitmap_getInfo env bitmap w = (getInfo_answer env bitmap, log_call (GetInfo bitmap) w)"

definition AndroidBitmap_lockPixels ::
  "JNIEnv \<Rightarrow> jobject \<Rightarrow> world \<Rightarrow> (c_int \<times> pixel_pointer) \<times> world" where
  "AndroidBitmap_lockPixels env bitmap w =
     (lockPixels_answer env bitmap, log_call (LockPixels bitmap) w)"

definition AndroidBitmap_unlockPixels :: "JNIEnv \<Rightarrow> jobject \<Rightarrow> world \<Rightarrow> world" where
  "AndroidBitmap_unlockPixels env bitmap w = log_call (UnlockPixels bitmap) w"

definition LOGE :: "string \<Rightarrow> world \<Rightarrow> world" where
  "LOGE msg w = log_call (LogE msg) w"

definition glBindTexture :: "GLenum \<Rightarrow> GLuint \<Rightarrow> world \<Rightarrow> world" where
  "glBindTexture target texture w =
     log_call (BindTexture target texture) (w\<lparr>gl_binding := (gl_binding w)(target := texture)\<rparr>)"

text \<open>
  \<^verbatim>\<open>glTexImage2D\<close> specifies the image of the texture bound at the target. The model keeps
  the arguments of the call as that image; what a driver does with sizes it rejects is
  not part of the source and is not modelled.
\<close>

definition glTexImage2D ::
  "GLenum \<Rightarrow> GLint \<Rightarrow> GLint \<Rightarrow> GLsizei \<Rightarrow> GLsizei \<Rightarrow> GLint \<Rightarrow> GLenum \<Rightarrow> GLenum \<Rightarrow> pixel_pointer
     \<Rightarrow> world \<Rightarrow> world" where
  "glTexImage2D target level internalformat w h border fmt ty pixels s =
     log_call (TexImage2D target level internalformat w h border fmt ty pixels)
       (s\<lparr>gl_image := (gl_image s)(gl_binding s target \<mapsto>
            \<lparr>image_level = level, image_internalformat = internalformat,
             image_width = w, image_height = h, image_border = border,
             image_format = fmt, image_type = ty, image_pixels = pixels\<rparr>)\<rparr>)"

subsection \<open>The base texture abstraction\<close>

record GLTexture =
  GLTexture_id :: GLuint
  GLTexture_target :: GLenum

text \<open>
  Modelled from the spec: the classes \<^verbatim>\<open>GLTexture\<close> and \<^verbatim>\<open>Texture\<close> of
  \<^verbatim>\<open>objects/textures/texture.h\<close> are not part of the source. The spec says of them that
  the base texture abstraction "supplies the GPU handle allocation/creation" and that the
  resource "owns a GPU texture handle (opaque integer identifier assigned by the graphics
  driver) and a fixed binding target". So \<^verbatim>\<open>new GLTexture(target)\<close> takes the next texture
  name of the driver and keeps it with the target, and \<^verbatim>\<open>Texture(gl_texture)\<close> stores the
  object in the member \<^verbatim>\<open>gl_texture_\<close>.
\<close>

definition new_GLTexture :: "GLenum \<Rightarrow> world \<Rightarrow> GLTexture \<times> world" where
  "new_GLTexture target w =
     (\<lparr>GLTexture_id = gl_next_name w, GLTexture_target = target\<rparr>,
      log_call (GenTexture target (gl_next_name w))
        (w\<lparr>gl_next_name := gl_next_name w + 1,
           gl_texture_names := gl_texture_names w @ [gl_next_name w]\<rparr>))"

record Texture =
  gl_texture :: GLTexture

type_synonym BaseTexture = Texture

subsection \<open>A string literal plus an integer\<close>

definition NUL :: char where
  "NUL = CHR 0x00"

text \<open>
  The byte \<open>i\<close> positions from the first character of the literal \<open>lit\<close>: a character of
  the literal, its terminator, or what the program image holds around it.
\<close>

definition byte_at :: "(int \<Rightarrow> char) \<Rightarrow> string \<Rightarrow> int \<Rightarrow> char" where
  "byte_at around lit i =
     (if 0 \<le> i \<and> i < int (length lit) then lit ! nat i
      else if i = int (length lit) then NUL
      else around i)"

text \<open>
  In \<^verbatim>\<open>std::string error = "..." + ret;\<close> the left operand of \<^verbatim>\<open>+\<close> is a string literal
  and the right one an \<^verbatim>\<open>int\<close>, so the sum is the pointer \<open>ret\<close> bytes from the literal's
  first character, and the string is built from the bytes found there, up to the first
  NUL. Both uses are guarded by \<^verbatim>\<open>ret < 0\<close>: the pointer lies before the literal, and
  the literal's own terminator ends the copy at the latest. (For an offset beyond the
  terminator, which the code never forms, the definition gives the empty string.)
\<close>

definition literal_plus :: "(int \<Rightarrow> char) \<Rightarrow> string \<Rightarrow> int \<Rightarrow> string" where
  "literal_plus around lit off =
     takeWhile (\<lambda>c. c \<noteq> NUL) (map (byte_at around lit) [off..int (length lit)])"

definition getInfo_literal :: string where
  "getInfo_literal = ''AndroidBitmap_getInfo () failed! error = ''"

definition lockPixels_literal :: string where
  "lockPixels_literal = ''AndroidBitmap_lockPixels () failed! error = ''"

subsection \<open>The constructors and the accessor\<close>

text \<open>
  A constructor either throws a \<^verbatim>\<open>std::string\<close> (\<open>Inl\<close>) or completes with the object
  (\<open>Inr\<close>); the world it leaves behind is returned in both cases.

  \<^verbatim>\<open>explicit BaseTexture(JNIEnv* env, jobject bitmap) : Texture(new GLTexture(TARGET))\<close>
\<close>

definition BaseTexture_bitmap ::
  "JNIEnv \<Rightarrow> jobject \<Rightarrow> world \<Rightarrow> (string + BaseTexture) \<times> world" where
  "BaseTexture_bitmap env bitmap w0 =
     (let (t, w1) = new_GLTexture TARGET w0;
          this = \<lparr>gl_texture = t\<rparr>;
          ((ret, info), w2) = AndroidBitmap_getInfo env bitmap w1
      in if sint ret < 0 then
           (let error = literal_plus (rodata w2 getInfo_literal) getInfo_literal (sint ret)
            in (Inl error, LOGE error w2))
         else
           (let ((ret', pixels), w3) = AndroidBitmap_lockPixels env bitmap w2
            in if sint ret' < 0 then
                 (let error =
                        literal_plus (rodata w3 lockPixels_literal) lockPixels_literal (sint ret')
                  in (Inl error, LOGE error w3))
               else
                 (let w4 = AndroidBitmap_unlockPixels env bitmap w3;
                      w5 = glBindTexture GL_TEXTURE_2D (GLTexture_id (gl_texture this)) w4;
                      w6 = glTexImage2D GL_TEXTURE_2D 0 GL_RGBA (width info) (height info) 0
                             GL_RGBA GL_UNSIGNED_BYTE pixels w5
                  in (Inr this, w6))))"

text \<open>
  \<^verbatim>\<open>explicit BaseTexture(int width, int height, const unsigned char* pixels) :
  Texture(new GLTexture(TARGET))\<close>
\<close>

definition BaseTexture_raw ::
  "c_int \<Rightarrow> c_int \<Rightarrow> pixel_pointer \<Rightarrow> world \<Rightarrow> (string + BaseTexture) \<times> world" where
  "BaseTexture_raw w h pixels w0 =
     (let (t, w1) = new_GLTexture TARGET w0;
          this = \<lparr>gl_texture = t\<rparr>;
          w2 = glBindTexture GL_TEXTURE_2D (GLTexture_id (gl_texture this)) w1;
          w3 = glTexImage2D GL_TEXTURE_2D 0 GL_RGBA w h 0 GL_RGBA GL_UNSIGNED_BYTE pixels w2
      in (Inr this, w3))"

text \<open>\<^verbatim>\<open>GLenum getTarget() const { return TARGET; }\<close>\<close>

definition getTarget :: "BaseTexture \<Rightarrow> world \<Rightarrow> GLenum \<times> world" where
  "getTarget this w = (TARGET, w)"

subsection \<open>Notions used in the statements\<close>

text \<open>The messages the two failure branches build from the code \<open>ret\<close>.\<close>

definition getInfo_message :: "world \<Rightarrow> c_int \<Rightarrow> string" where
  "getInfo_message w ret = literal_plus (rodata w getInfo_literal) getInfo_literal (sint ret)"

definition lockPixels_message :: "world \<Rightarrow> c_int \<Rightarrow> string" where
  "lockPixels_message w ret =
     literal_plus (rodata w lockPixels_literal) lockPixels_literal (sint ret)"

text \<open>The world once the base-class initializer has made the texture object.\<close>

definition allocated :: "world \<Rightarrow> world" where
  "allocated w = w\<lparr>gl_next_name := gl_next_name w + 1,
     gl_texture_names := gl_texture_names w @ [gl_next_name w]\<rparr>"

text \<open>The image that the upload of both constructors specifies.\<close>

definition uploaded_image :: "GLsizei \<Rightarrow> GLsizei \<Rightarrow> pixel_pointer \<Rightarrow> tex_image" where
  "uploaded_image w h pixels =
     \<lparr>image_level = 0, image_internalformat = GL_RGBA, image_width = w, image_height = h,
      image_border = 0, image_format = GL_RGBA, image_type = GL_UNSIGNED_BYTE,
      image_pixels = pixels\<rparr>"

text \<open>The calls that write the binding slot or a texture image.\<close>

fun is_bind_or_upload :: "call \<Rightarrow> bool" where
  "is_bind_or_upload (BindTexture target texture) = True"
| "is_bind_or_upload (TexImage2D target level internalformat w h border fmt ty pixels) = True"
| "is_bind_or_upload c = False"

subsection \<open>Concrete inputs\<close>

text \<open>
  A world with no texture yet, in which each literal of the program image follows the
  string \<^verbatim>\<open>"%s"\<close> and its terminator, and every other byte around it is NUL.
\<close>

definition example_world :: world where
  "example_world =
     \<lparr>rodata = (\<lambda>lit i. if i = -3 then CHR ''%'' else if i = -2 then CHR ''s'' else NUL),
      gl_next_name = 1, gl_texture_names = [], gl_binding = (\<lambda>target. 0),
      gl_image = Map.empty, calls = []\<rparr>"

text \<open>Sixteen bytes: the four RGBA pixels of a 2 by 2 image.\<close>

definition example_pixels :: pixel_pointer where
  "example_pixels = replicate 16 255"

text \<open>
  A platform that answers the metadata query with \<open>info_code\<close> and the 2 by 2 image's
  description, and the pixel lock with \<open>lock_code\<close> and the image's bytes.
\<close>

definition example_platform :: "c_int \<Rightarrow> c_int \<Rightarrow> JNIEnv" where
  "example_platform info_code lock_code =
     \<lparr>getInfo_answer =
        (\<lambda>bitmap. (info_code, \<lparr>width = 2, height = 2, stride = 8, format = 1, flags = 0\<rparr>)),
      lockPixels_answer = (\<lambda>bitmap. (lock_code, example_pixels))\<rparr>"

section \<open>The paths of the constructors\<close>

lemmas api_defs = new_GLTexture_def AndroidBitmap_getInfo_def AndroidBitmap_lockPixels_def
  AndroidBitmap_unlockPixels_def LOGE_def glBindTexture_def glTexImage2D_def log_call_def
  TARGET_def

text \<open>The metadata query reports a negative code: the first \<^verbatim>\<open>throw\<close>.\<close>

lemma bitmap_getInfo_fails:
  assumes "sint (fst (getInfo_answer env bitmap)) < 0"
  shows "BaseTexture_bitmap env bitmap w =
     (Inl (getInfo_message w (fst (getInfo_answer env bitmap))),
      (allocated w)\<lparr>calls := calls w @
         [GenTexture GL_TEXTURE_2D (gl_next_name w), GetInfo bitmap,
          LogE (getInfo_message w (fst (getInfo_answer env bitmap)))]\<rparr>)"
  using assms
  by (simp add: BaseTexture_bitmap_def api_defs allocated_def getInfo_message_def Let_def
      case_prod_beta)

text \<open>The query succeeds and the pixel lock reports a negative code: the second \<^verbatim>\<open>throw\<close>.\<close>

lemma bitmap_lockPixels_fails:
  assumes "0 \<le> sint (fst (getInfo_answer env bitmap))"
    and "sint (fst (lockPixels_answer env bitmap)) < 0"
  shows "BaseTexture_bitmap env bitmap w =
     (Inl (lockPixels_message w (fst (lockPixels_answer env bitmap))),
      (allocated w)\<lparr>calls := calls w @
         [GenTexture GL_TEXTURE_2D (gl_next_name w), GetInfo bitmap, LockPixels bitmap,
          LogE (lockPixels_message w (fst (lockPixels_answer env bitmap)))]\<rparr>)"
  using assms
  by (simp add: BaseTexture_bitmap_def api_defs allocated_def lockPixels_message_def Let_def
      case_prod_beta)

text \<open>Both succeed: the constructor runs to its end.\<close>

lemma bitmap_succeeds:
  assumes "0 \<le> sint (fst (getInfo_answer env bitmap))"
    and "0 \<le> sint (fst (lockPixels_answer env bitmap))"
  shows "BaseTexture_bitmap env bitmap w =
     (Inr \<lparr>gl_texture = \<lparr>GLTexture_id = gl_next_name w, GLTexture_target = GL_TEXTURE_2D\<rparr>\<rparr>,
      (allocated w)\<lparr>
        gl_binding := (gl_binding w)(GL_TEXTURE_2D := gl_next_name w),
        gl_image := (gl_image w)(gl_next_name w \<mapsto>
           uploaded_image (width (snd (getInfo_answer env bitmap)))
             (height (snd (getInfo_answer env bitmap))) (snd (lockPixels_answer env bitmap))),
        calls := calls w @
         [GenTexture GL_TEXTURE_2D (gl_next_name w), GetInfo bitmap, LockPixels bitmap,
          UnlockPixels bitmap, BindTexture GL_TEXTURE_2D (gl_next_name w),
          TexImage2D GL_TEXTURE_2D 0 GL_RGBA (width (snd (getInfo_answer env bitmap)))
             (height (snd (getInfo_answer env bitmap))) 0 GL_RGBA GL_UNSIGNED_BYTE
             (snd (lockPixels_answer env bitmap))]\<rparr>)"
  using assms
  by (simp add: BaseTexture_bitmap_def api_defs allocated_def uploaded_image_def Let_def
      case_prod_beta)

text \<open>A constructor that throws took one of the two failure branches.\<close>

lemma bitmap_throws_cases:
  assumes "fst (BaseTexture_bitmap env bitmap w) = Inl e"
  shows "sint (fst (getInfo_answer env bitmap)) < 0
     \<or> (0 \<le> sint (fst (getInfo_answer env bitmap))
         \<and> sint (fst (lockPixels_answer env bitmap)) < 0)"
proof (rule ccontr)
  assume "\<not> ?thesis"
  then have "0 \<le> sint (fst (getInfo_answer env bitmap))"
    and "0 \<le> sint (fst (lockPixels_answer env bitmap))"
    by auto
  from bitmap_succeeds [OF this, of w] assms show False
    by simp
qed

text \<open>The constructor from raw pixels has one path.\<close>

lemma raw_runs:
  "BaseTexture_raw w h pixels s =
     (Inr \<lparr>gl_texture = \<lparr>GLTexture_id = gl_next_name s, GLTexture_target = GL_TEXTURE_2D\<rparr>\<rparr>,
      (allocated s)\<lparr>
        gl_binding := (gl_binding s)(GL_TEXTURE_2D := gl_next_name s),
        gl_image := (gl_image s)(gl_next_name s \<mapsto> uploaded_image w h pixels),
        calls := calls s @
         [GenTexture GL_TEXTURE_2D (gl_next_name s), BindTexture GL_TEXTURE_2D (gl_next_name s),
          TexImage2D GL_TEXTURE_2D 0 GL_RGBA w h 0 GL_RGBA GL_UNSIGNED_BYTE pixels]\<rparr>)"
  by (simp add: BaseTexture_raw_def api_defs allocated_def uploaded_image_def Let_def
      case_prod_beta)

section \<open>What the thrown message is made of\<close>

lemma map_byte_at_literal:
  "map (byte_at around lit) [0..int (length lit) - 1] = lit"
proof (rule nth_equalityI)
  show "length (map (byte_at around lit) [0..int (length lit) - 1]) = length lit"
    by simp
next
  fix k
  assume "k < length (map (byte_at around lit) [0..int (length lit) - 1])"
  then have k: "k < length lit"
    by simp
  then have "[0..int (length lit) - 1] ! k = int k"
    by (simp add: nth_upto)
  with k show "map (byte_at around lit) [0..int (length lit) - 1] ! k = lit ! k"
    by (simp add: byte_at_def)
qed

lemma map_byte_at_before:
  assumes "off < 0"
  shows "map (byte_at around lit) [off..-1] = map around [off..-1]"
  by (rule map_cong) (auto simp: byte_at_def)

lemma upto_through_literal:
  assumes "off < 0"
  shows "[off..int n] = [off..-1] @ [0..int n - 1] @ [int n]"
proof -
  have "[off..int n] = [off..-1] @ [0..int n]"
    using assms upto_split2 [of off "-1" "int n"] by simp
  moreover have "[0..int n] = [0..int n - 1] @ [int n]"
    using upto_rec2 [of 0 "int n"] by simp
  ultimately show ?thesis
    by simp
qed

lemma takeWhile_terminated:
  assumes "NUL \<notin> set ys"
  shows "takeWhile (\<lambda>c. c \<noteq> NUL) (ys @ [NUL]) = ys"
  using assms by (induction ys) auto

lemma takeWhile_before_terminated:
  assumes "NUL \<notin> set ys"
  shows "takeWhile (\<lambda>c. c \<noteq> NUL) (xs @ ys @ [NUL]) =
     (if NUL \<in> set xs then takeWhile (\<lambda>c. c \<noteq> NUL) xs else xs @ ys)"
  using assms by (induction xs) (auto simp: takeWhile_terminated)

text \<open>
  For a negative offset the string consists of the bytes that the program image holds
  before the literal, up to the first NUL among them, and of the literal itself when
  there is none. The offset decides where the copy starts; its digits are not written
  anywhere.
\<close>

lemma literal_plus_before:
  assumes "off < 0" and "NUL \<notin> set lit"
  shows "literal_plus around lit off =
     (if NUL \<in> set (map around [off..-1]) then takeWhile (\<lambda>c. c \<noteq> NUL) (map around [off..-1])
      else map around [off..-1] @ lit)"
proof -
  have "map (byte_at around lit) [off..int (length lit)] =
      map around [off..-1] @ lit @ [NUL]"
    using assms(1)
    by (simp add: upto_through_literal map_byte_at_literal map_byte_at_before byte_at_def)
  then have "literal_plus around lit off =
      takeWhile (\<lambda>c. c \<noteq> NUL) (map around [off..-1] @ lit @ [NUL])"
    by (simp add: literal_plus_def)
  also note takeWhile_before_terminated [OF assms(2)]
  finally show ?thesis .
qed

text \<open>So it is for the two messages of the bitmap constructor.\<close>

lemma literals_without_NUL:
  "NUL \<notin> set getInfo_literal" "NUL \<notin> set lockPixels_literal"
  by (simp_all add: getInfo_literal_def lockPixels_literal_def NUL_def)

lemma getInfo_message_from_image:
  assumes "sint ret < 0"
  shows "getInfo_message w ret =
     (if NUL \<in> set (map (rodata w getInfo_literal) [sint ret..-1])
      then takeWhile (\<lambda>c. c \<noteq> NUL) (map (rodata w getInfo_literal) [sint ret..-1])
      else map (rodata w getInfo_literal) [sint ret..-1] @ getInfo_literal)"
  unfolding getInfo_message_def
  by (rule literal_plus_before [OF assms literals_without_NUL(1)])

lemma lockPixels_message_from_image:
  assumes "sint ret < 0"
  shows "lockPixels_message w ret =
     (if NUL \<in> set (map (rodata w lockPixels_literal) [sint ret..-1])
      then takeWhile (\<lambda>c. c \<noteq> NUL) (map (rodata w lockPixels_literal) [sint ret..-1])
      else map (rodata w lockPixels_literal) [sint ret..-1] @ lockPixels_literal)"
  unfolding lockPixels_message_def
  by (rule literal_plus_before [OF assms literals_without_NUL(2)])

text \<open>The messages in the example world, for the codes -1, -3 and -2.\<close>

lemma example_messages:
  "literal_plus (rodata example_world getInfo_literal) getInfo_literal (-1) = []"
  "literal_plus (rodata example_world getInfo_literal) getInfo_literal (-3) = [CHR 0x25, CHR 0x73]"
  "literal_plus (rodata example_world lockPixels_literal) lockPixels_literal (-2) = [CHR 0x73]"
  by code_simp+

lemma example_world_fields:
  "gl_next_name example_world = 1"
  "gl_texture_names example_world = []"
  "gl_binding example_world = (\<lambda>target. 0)"
  "gl_image example_world = Map.empty"
  "calls example_world = []"
  by (simp_all add: example_world_def)

lemmas example_defs = example_platform_def getInfo_message_def lockPixels_message_def
  allocated_def example_messages example_world_fields

section \<open>Properties\<close>

text \<open>
  C1. The claim: when the bitmap constructor fails, the error value it throws is a
  descriptive message with the platform's error code embedded in it. The code does not
  do that: \<^verbatim>\<open>"..." + ret\<close> moves a pointer and formats nothing. Evaluated in the example
  world, a metadata query that fails with code -1 throws the empty string, one that fails
  with code -3 throws \<^verbatim>\<open>"%s"\<close>, and a pixel lock that fails with code -2 throws \<^verbatim>\<open>"s"\<close>:
  none of the three messages holds the code, and the first two differ although
  both come from the same statement.
\<close>

theorem error_message_lacks_code:
  "fst (BaseTexture_bitmap (example_platform (-1) 0) 7 example_world) = Inl ''''
   \<and> fst (BaseTexture_bitmap (example_platform (-3) 0) 7 example_world) = Inl ''%s''
   \<and> fst (BaseTexture_bitmap (example_platform 0 (-2)) 7 example_world) = Inl ''s''"
  by (simp add: bitmap_getInfo_fails bitmap_lockPixels_fails example_defs)

text \<open>
  C2. For every bitmap handle whose metadata query returns a negative code, the bitmap
  constructor throws: its result is the error value, never an object. The calls it has
  made by then are the creation of the texture object, the query and the error log; the
  pixel lock and the graphics calls of the body are not reached.
\<close>

theorem getInfo_failure_aborts:
  assumes "sint (fst (getInfo_answer env bitmap)) < 0"
  shows "fst (BaseTexture_bitmap env bitmap w) =
       Inl (literal_plus (rodata w getInfo_literal) getInfo_literal
              (sint (fst (getInfo_answer env bitmap))))
     \<and> calls (snd (BaseTexture_bitmap env bitmap w)) =
       calls w @ [GenTexture GL_TEXTURE_2D (gl_next_name w), GetInfo bitmap,
         LogE (literal_plus (rodata w getInfo_literal) getInfo_literal
                 (sint (fst (getInfo_answer env bitmap))))]"
proof -
  note path = bitmap_getInfo_fails [OF assms, of w]
  show ?thesis
    by (simp add: path getInfo_message_def)
qed

theorem getInfo_failure_aborts_witness:
  "sint (fst (getInfo_answer (example_platform (-1) 0) 7)) < 0
   \<and> fst (BaseTexture_bitmap (example_platform (-1) 0) 7 example_world) = Inl ''''
   \<and> calls (snd (BaseTexture_bitmap (example_platform (-1) 0) 7 example_world)) =
       [GenTexture GL_TEXTURE_2D 1, GetInfo 7, LogE '''']"
proof -
  have neg: "sint (fst (getInfo_answer (example_platform (-1) 0) 7)) < 0"
    by (simp add: example_platform_def)
  show ?thesis
    using neg getInfo_failure_aborts [OF neg, of example_world]
    by (simp add: example_defs)
qed

text \<open>
  C3. For every bitmap handle whose metadata query succeeds and whose pixel lock returns
  a negative code, the bitmap constructor throws: its result is the error value, never an
  object. The pixels are not unlocked and no graphics call of the body is made.
\<close>

theorem lockPixels_failure_aborts:
  assumes "0 \<le> sint (fst (getInfo_answer env bitmap))"
    and "sint (fst (lockPixels_answer env bitmap)) < 0"
  shows "fst (BaseTexture_bitmap env bitmap w) =
       Inl (literal_plus (rodata w lockPixels_literal) lockPixels_literal
              (sint (fst (lockPixels_answer env bitmap))))
     \<and> calls (snd (BaseTexture_bitmap env bitmap w)) =
       calls w @ [GenTexture GL_TEXTURE_2D (gl_next_name w), GetInfo bitmap, LockPixels bitmap,
         LogE (literal_plus (rodata w lockPixels_literal) lockPixels_literal
                 (sint (fst (lockPixels_answer env bitmap))))]"
proof -
  note path = bitmap_lockPixels_fails [OF assms, of w]
  show ?thesis
    by (simp add: path lockPixels_message_def)
qed

theorem lockPixels_failure_aborts_witness:
  "0 \<le> sint (fst (getInfo_answer (example_platform 0 (-2)) 7))
   \<and> sint (fst (lockPixels_answer (example_platform 0 (-2)) 7)) < 0
   \<and> fst (BaseTexture_bitmap (example_platform 0 (-2)) 7 example_world) = Inl ''s''
   \<and> calls (snd (BaseTexture_bitmap (example_platform 0 (-2)) 7 example_world)) =
       [GenTexture GL_TEXTURE_2D 1, GetInfo 7, LockPixels 7, LogE ''s'']"
proof -
  have ok: "0 \<le> sint (fst (getInfo_answer (example_platform 0 (-2)) 7))"
    by (simp add: example_platform_def)
  have neg: "sint (fst (lockPixels_answer (example_platform 0 (-2)) 7)) < 0"
    by (simp add: example_platform_def)
  show ?thesis
    using ok neg lockPixels_failure_aborts [OF ok neg, of example_world]
    by (simp add: example_defs)
qed

text \<open>
  C4. For every valid bitmap handle (the metadata query and the pixel lock both return a
  code that is not negative) the bitmap constructor completes, and after the base-class
  initializer has made the texture object its body makes exactly these calls, in this
  order: the metadata query, the pixel lock, the pixel unlock, the bind of the texture
  object at the 2D target, and one upload at level 0 with the queried width and height,
  RGBA as internal and as source format, and unsigned-byte channels. The unlock comes
  before the bind and the upload. Afterwards the texture is the one bound at the 2D
  target and its image has the bitmap's width and height (the \<^verbatim>\<open>uint32_t\<close> fields are
  passed as \<^verbatim>\<open>GLsizei\<close> bit for bit).
\<close>

theorem bitmap_constructor_steps:
  assumes "0 \<le> sint (fst (getInfo_answer env bitmap))"
    and "0 \<le> sint (fst (lockPixels_answer env bitmap))"
  shows "fst (BaseTexture_bitmap env bitmap w) =
       Inr \<lparr>gl_texture = \<lparr>GLTexture_id = gl_next_name w, GLTexture_target = GL_TEXTURE_2D\<rparr>\<rparr>
     \<and> calls (snd (BaseTexture_bitmap env bitmap w)) =
       calls w @ [GenTexture GL_TEXTURE_2D (gl_next_name w),
         GetInfo bitmap, LockPixels bitmap, UnlockPixels bitmap,
         BindTexture GL_TEXTURE_2D (gl_next_name w),
         TexImage2D GL_TEXTURE_2D 0 GL_RGBA (width (snd (getInfo_answer env bitmap)))
           (height (snd (getInfo_answer env bitmap))) 0 GL_RGBA GL_UNSIGNED_BYTE
           (snd (lockPixels_answer env bitmap))]
     \<and> gl_binding (snd (BaseTexture_bitmap env bitmap w)) GL_TEXTURE_2D = gl_next_name w
     \<and> gl_image (snd (BaseTexture_bitmap env bitmap w)) (gl_next_name w) =
       Some \<lparr>image_level = 0, image_internalformat = GL_RGBA,
         image_width = width (snd (getInfo_answer env bitmap)),
         image_height = height (snd (getInfo_answer env bitmap)),
         image_border = 0, image_format = GL_RGBA, image_type = GL_UNSIGNED_BYTE,
         image_pixels = snd (lockPixels_answer env bitmap)\<rparr>"
proof -
  note path = bitmap_succeeds [OF assms, of w]
  show ?thesis
    by (simp add: path uploaded_image_def)
qed

theorem bitmap_constructor_steps_witness:
  "0 \<le> sint (fst (getInfo_answer (example_platform 0 0) 7))
   \<and> 0 \<le> sint (fst (lockPixels_answer (example_platform 0 0) 7))
   \<and> fst (BaseTexture_bitmap (example_platform 0 0) 7 example_world) =
       Inr \<lparr>gl_texture = \<lparr>GLTexture_id = 1, GLTexture_target = GL_TEXTURE_2D\<rparr>\<rparr>
   \<and> calls (snd (BaseTexture_bitmap (example_platform 0 0) 7 example_world)) =
       [GenTexture GL_TEXTURE_2D 1, GetInfo 7, LockPixels 7, UnlockPixels 7,
        BindTexture GL_TEXTURE_2D 1,
        TexImage2D GL_TEXTURE_2D 0 GL_RGBA 2 2 0 GL_RGBA GL_UNSIGNED_BYTE example_pixels]
   \<and> gl_binding (snd (BaseTexture_bitmap (example_platform 0 0) 7 example_world)) GL_TEXTURE_2D = 1
   \<and> gl_image (snd (BaseTexture_bitmap (example_platform 0 0) 7 example_world)) 1 =
       Some \<lparr>image_level = 0, image_internalformat = GL_RGBA, image_width = 2,
         image_height = 2, image_border = 0, image_format = GL_RGBA,
         image_type = GL_UNSIGNED_BYTE, image_pixels = example_pixels\<rparr>"
proof -
  have ok1: "0 \<le> sint (fst (getInfo_answer (example_platform 0 0) 7))"
    by (simp add: example_platform_def)
  have ok2: "0 \<le> sint (fst (lockPixels_answer (example_platform 0 0) 7))"
    by (simp add: example_platform_def)
  show ?thesis
    using ok1 ok2 bitmap_constructor_steps [OF ok1 ok2, of example_world]
    by (simp add: example_defs)
qed

text \<open>
  C5. For every width, height and buffer whose length is at least width times height
  times 4, the constructor from raw pixels completes with the object, the image of the
  object's texture has exactly the given width and height, RGBA as internal and as source
  format and unsigned-byte channels (four bytes for each pixel), and the target accessor
  of the object returns the 2D-texture constant.
\<close>

theorem raw_constructor_populates:
  assumes "sint w * sint h * 4 \<le> int (length pixels)"
  shows "fst (BaseTexture_raw w h pixels s) =
       Inr \<lparr>gl_texture = \<lparr>GLTexture_id = gl_next_name s, GLTexture_target = GL_TEXTURE_2D\<rparr>\<rparr>
     \<and> gl_image (snd (BaseTexture_raw w h pixels s)) (gl_next_name s) =
       Some \<lparr>image_level = 0, image_internalformat = GL_RGBA, image_width = w,
         image_height = h, image_border = 0, image_format = GL_RGBA,
         image_type = GL_UNSIGNED_BYTE, image_pixels = pixels\<rparr>
     \<and> fst (getTarget
           \<lparr>gl_texture = \<lparr>GLTexture_id = gl_next_name s, GLTexture_target = GL_TEXTURE_2D\<rparr>\<rparr>
           (snd (BaseTexture_raw w h pixels s))) = GL_TEXTURE_2D"
proof -
  note run = raw_runs [of w h pixels s]
  show ?thesis
    by (simp add: run uploaded_image_def getTarget_def TARGET_def)
qed

theorem raw_constructor_populates_witness:
  "sint (2 :: c_int) * sint (2 :: c_int) * 4 \<le> int (length example_pixels)
   \<and> fst (BaseTexture_raw 2 2 example_pixels example_world) =
       Inr \<lparr>gl_texture = \<lparr>GLTexture_id = 1, GLTexture_target = GL_TEXTURE_2D\<rparr>\<rparr>
   \<and> gl_image (snd (BaseTexture_raw 2 2 example_pixels example_world)) 1 =
       Some \<lparr>image_level = 0, image_internalformat = GL_RGBA, image_width = 2,
         image_height = 2, image_border = 0, image_format = GL_RGBA,
         image_type = GL_UNSIGNED_BYTE, image_pixels = example_pixels\<rparr>
   \<and> fst (getTarget \<lparr>gl_texture = \<lparr>GLTexture_id = 1, GLTexture_target = GL_TEXTURE_2D\<rparr>\<rparr>
          (snd (BaseTexture_raw 2 2 example_pixels example_world))) = GL_TEXTURE_2D"
proof -
  have len: "sint (2 :: c_int) * sint (2 :: c_int) * 4 \<le> int (length example_pixels)"
    by (simp add: example_pixels_def)
  show ?thesis
    using len raw_constructor_populates [OF len, of example_world]
    by (simp add: example_defs)
qed

text \<open>
  C6. The constructor from raw pixels throws for no input: whatever the width, the height
  and the buffer (of any length) are, it completes with the object, and the calls it
  makes are the creation of the texture object, the bind and the upload, with the
  arguments passed on as they are. There is no check before the upload and no query of
  the graphics error state after it.
\<close>

theorem raw_constructor_never_throws:
  "fst (BaseTexture_raw w h pixels s) =
       Inr \<lparr>gl_texture = \<lparr>GLTexture_id = gl_next_name s, GLTexture_target = GL_TEXTURE_2D\<rparr>\<rparr>
   \<and> calls (snd (BaseTexture_raw w h pixels s)) =
       calls s @ [GenTexture GL_TEXTURE_2D (gl_next_name s),
         BindTexture GL_TEXTURE_2D (gl_next_name s),
         TexImage2D GL_TEXTURE_2D 0 GL_RGBA w h 0 GL_RGBA GL_UNSIGNED_BYTE pixels]"
proof -
  note run = raw_runs [of w h pixels s]
  show ?thesis
    by (simp add: run)
qed

text \<open>
  C7. The target accessor returns the fixed 2D-texture binding target for every texture
  object, in every world, and leaves the world as it found it.
\<close>

theorem getTarget_pure: "getTarget this w = (GL_TEXTURE_2D, w)"
  unfolding getTarget_def TARGET_def by (rule refl)

text \<open>
  C9. Whenever the bitmap constructor throws (the metadata query or the pixel lock has
  failed), it has issued neither the bind nor the upload: the calls of these two kinds in
  the log are those that were there before, the texture bound at each target is the one
  that was bound before, and no texture image has changed. The body of the constructor
  leaves the binding as the base-class initializer left it; the creation of the texture
  object by that initializer takes a texture name and binds nothing.
\<close>

theorem failed_construction_leaves_binding:
  assumes "fst (BaseTexture_bitmap env bitmap w) = Inl e"
  shows "filter is_bind_or_upload (calls (snd (BaseTexture_bitmap env bitmap w))) =
       filter is_bind_or_upload (calls w)
     \<and> gl_binding (snd (BaseTexture_bitmap env bitmap w)) = gl_binding w
     \<and> gl_binding (snd (BaseTexture_bitmap env bitmap w)) =
       gl_binding (snd (new_GLTexture TARGET w))
     \<and> gl_image (snd (BaseTexture_bitmap env bitmap w)) = gl_image w"
proof -
  from bitmap_throws_cases [OF assms] show ?thesis
  proof
    assume "sint (fst (getInfo_answer env bitmap)) < 0"
    from bitmap_getInfo_fails [OF this, of w] show ?thesis
      by (simp add: allocated_def new_GLTexture_def log_call_def)
  next
    assume "0 \<le> sint (fst (getInfo_answer env bitmap))
      \<and> sint (fst (lockPixels_answer env bitmap)) < 0"
    then have "0 \<le> sint (fst (getInfo_answer env bitmap))"
      and "sint (fst (lockPixels_answer env bitmap)) < 0"
      by simp_all
    from bitmap_lockPixels_fails [OF this, of w] show ?thesis
      by (simp add: allocated_def new_GLTexture_def log_call_def)
  qed
qed

theorem failed_construction_leaves_binding_witness:
  "fst (BaseTexture_bitmap (example_platform 0 (-2)) 7 example_world) = Inl ''s''
   \<and> filter is_bind_or_upload
       (calls (snd (BaseTexture_bitmap (example_platform 0 (-2)) 7 example_world))) = []
   \<and> gl_binding (snd (BaseTexture_bitmap (example_platform 0 (-2)) 7 example_world)) =
       (\<lambda>target. 0)
   \<and> gl_binding (snd (new_GLTexture TARGET example_world)) = (\<lambda>target. 0)
   \<and> gl_image (snd (BaseTexture_bitmap (example_platform 0 (-2)) 7 example_world)) = Map.empty"
proof -
  have thrown: "fst (BaseTexture_bitmap (example_platform 0 (-2)) 7 example_world) = Inl ''s''"
    by (simp add: bitmap_lockPixels_fails example_defs)
  show ?thesis
    using thrown failed_construction_leaves_binding [OF thrown]
    by (simp add: example_defs new_GLTexture_def log_call_def)
qed

text \<open>
  C10. In both constructors the first call is the creation of a texture object with the
  2D target, made by the base-class initializer: in the bitmap constructor it comes
  before the metadata query. So when the bitmap constructor throws, the texture name has
  been taken already and is still among the texture names of the world the constructor
  leaves: after the creation the constructor has only queried, possibly locked, and logged
  the error, and nothing in it gives the name back.
\<close>

theorem texture_allocated_before_validation:
  "(\<exists>rest. calls (snd (BaseTexture_bitmap env bitmap s)) =
       calls s @ GenTexture GL_TEXTURE_2D (gl_next_name s) # GetInfo bitmap # rest)
   \<and> (\<exists>rest. calls (snd (BaseTexture_raw w h pixels s)) =
       calls s @ GenTexture GL_TEXTURE_2D (gl_next_name s) # rest)
   \<and> (fst (BaseTexture_bitmap env bitmap s) = Inl e \<longrightarrow>
       gl_texture_names (snd (BaseTexture_bitmap env bitmap s)) =
         gl_texture_names s @ [gl_next_name s]
       \<and> (\<exists>msg. calls (snd (BaseTexture_bitmap env bitmap s)) = calls s @
           [GenTexture GL_TEXTURE_2D (gl_next_name s), GetInfo bitmap, LogE msg]
         \<or> calls (snd (BaseTexture_bitmap env bitmap s)) = calls s @
           [GenTexture GL_TEXTURE_2D (gl_next_name s), GetInfo bitmap, LockPixels bitmap,
            LogE msg]))"
proof (intro conjI impI)
  show "\<exists>rest. calls (snd (BaseTexture_bitmap env bitmap s)) =
       calls s @ GenTexture GL_TEXTURE_2D (gl_next_name s) # GetInfo bitmap # rest"
    by (simp add: BaseTexture_bitmap_def api_defs Let_def case_prod_beta)
next
  show "\<exists>rest. calls (snd (BaseTexture_raw w h pixels s)) =
       calls s @ GenTexture GL_TEXTURE_2D (gl_next_name s) # rest"
    by (simp add: raw_runs)
next
  assume thrown: "fst (BaseTexture_bitmap env bitmap s) = Inl e"
  from bitmap_throws_cases [OF thrown]
  show "gl_texture_names (snd (BaseTexture_bitmap env bitmap s)) =
      gl_texture_names s @ [gl_next_name s]"
    by (auto simp: bitmap_getInfo_fails bitmap_lockPixels_fails allocated_def)
  from bitmap_throws_cases [OF thrown]
  show "\<exists>msg. calls (snd (BaseTexture_bitmap env bitmap s)) = calls s @
           [GenTexture GL_TEXTURE_2D (gl_next_name s), GetInfo bitmap, LogE msg]
         \<or> calls (snd (BaseTexture_bitmap env bitmap s)) = calls s @
           [GenTexture GL_TEXTURE_2D (gl_next_name s), GetInfo bitmap, LockPixels bitmap,
            LogE msg]"
    by (auto simp: bitmap_getInfo_fails bitmap_lockPixels_fails allocated_def)
qed

theorem texture_allocated_before_validation_witness:
  "fst (BaseTexture_bitmap (example_platform (-1) 0) 7 example_world) = Inl ''''
   \<and> calls (snd (BaseTexture_bitmap (example_platform (-1) 0) 7 example_world)) =
       [GenTexture GL_TEXTURE_2D 1, GetInfo 7, LogE '''']
   \<and> gl_texture_names (snd (BaseTexture_bitmap (example_platform (-1) 0) 7 example_world)) = [1]"
proof -
  have thrown: "fst (BaseTexture_bitmap (example_platform (-1) 0) 7 example_world) = Inl ''''"
    by (simp add: bitmap_getInfo_fails example_defs)
  have trace: "calls (snd (BaseTexture_bitmap (example_platform (-1) 0) 7 example_world)) =
       [GenTexture GL_TEXTURE_2D 1, GetInfo 7, LogE '''']"
    by (simp add: bitmap_getInfo_fails example_defs)
  show ?thesis
    using thrown trace
      texture_allocated_before_validation
        [of "example_platform (-1) 0" 7 example_world 2 2 example_pixels "''''"]
    by (simp add: example_defs)
qed

end
